theory Spec2Isabelle
  imports Main "HOL-Library.Word" "HOL-Library.Sublist"
begin

section \<open>SDP creation helpers (src/stream_output/sdp.c)\<close>

text \<open>
  A C string is represented by the list of the bytes that precede its terminating NUL;
  a pointer that may be \<open>NULL\<close> is an \<open>option\<close>. A buffer is identified with its
  contents: the capacity of the fixed arrays and the identity of heap blocks are not
  represented, lengths are natural numbers (no \<open>size_t\<close> wrap-around).
\<close>

subsection \<open>Characters and string primitives of the C library\<close>

abbreviation CR :: char where "CR \<equiv> CHR 0x0D"
abbreviation LF :: char where "LF \<equiv> CHR 0x0A"
abbreviation CRLF :: string where "CRLF \<equiv> [CR, LF]"

text \<open>\<open>strchr (str, c)\<close> for \<open>c\<close> other than NUL: the offset of the first
  occurrence, \<open>None\<close> for the null pointer.\<close>

fun strchr :: "string \<Rightarrow> char \<Rightarrow> nat option" where
  "strchr [] c = None"
| "strchr (x # xs) c = (if x = c then Some 0 else map_option Suc (strchr xs c))"

subsection \<open>The printf family\<close>

text \<open>Decimal output of \<open>%u\<close>, \<open>%llu\<close> (\<open>dec\<close>) and of \<open>%d\<close> (\<open>sdec\<close>).\<close>

definition digit :: "nat \<Rightarrow> char" where
  "digit n = ''0123456789'' ! (n mod 10)"

fun dec :: "nat \<Rightarrow> string" where
  "dec n = (if n < 10 then [digit n] else dec (n div 10) @ [digit n])"

declare dec.simps [simp del]

definition sdec :: "int \<Rightarrow> string" where
  "sdec i = (if i < 0 then CHR ''-'' # dec (nat (- i)) else dec (nat i))"

text \<open>
  The values a variadic call can pass, after the default argument promotions:
  an \<open>int\<close>, an \<open>unsigned\<close>, a \<open>uint64_t\<close>, a \<open>char\<close> promoted to \<open>int\<close>,
  a \<open>char *\<close>, and a \<open>va_list\<close> object handed over as if it were an argument.
\<close>

datatype arg =
    A_int "32 word"
  | A_unsigned "32 word"
  | A_uint64 "64 word"
  | A_char char
  | A_str string
  | A_va_list "arg list"

text \<open>
  One conversion applied to one argument. \<open>%d\<close> and \<open>%u\<close> read the 32 bits of an
  \<open>int\<close> or \<open>unsigned\<close> argument as signed resp. unsigned, whichever of the two types
  was passed. \<open>None\<close> is a conversion whose argument has another type (undefined
  behaviour in C): no conversion accepts a \<open>va_list\<close>.
\<close>

fun conv :: "char \<Rightarrow> arg \<Rightarrow> string option" where
  "conv k (A_int w) =
     (if k = CHR ''d'' then Some (sdec (sint w))
      else if k = CHR ''u'' then Some (dec (unat w)) else None)"
| "conv k (A_unsigned w) =
     (if k = CHR ''d'' then Some (sdec (sint w))
      else if k = CHR ''u'' then Some (dec (unat w)) else None)"
| "conv k (A_char c) = (if k = CHR ''c'' then Some [c] else None)"
| "conv k (A_str s) = (if k = CHR ''s'' then Some s else None)"
| "conv k (A_uint64 w) = None"
| "conv k (A_va_list ap) = None"

text \<open>
  The text that \<open>sprintf\<close>, \<open>snprintf\<close>, \<open>vsnprintf\<close> and \<open>asprintf\<close> produce from a
  format and its arguments, for the directives this file uses: \<open>%s\<close>, \<open>%u\<close>,
  \<open>%d\<close>, \<open>%c\<close>, \<open>%llu\<close> and \<open>%%\<close>. Arguments left over are ignored, as in C.
  \<open>None\<close> stands for undefined behaviour: a directive without an argument or with an
  argument of the wrong type, or a directive outside this list.
\<close>

fun c_format :: "string \<Rightarrow> arg list \<Rightarrow> string option" where
  "c_format [] as = Some []"
| "c_format (c # f) as =
     (if c \<noteq> CHR ''%'' then map_option ((#) c) (c_format f as)
      else (case f of
          [] \<Rightarrow> None
        | k # r \<Rightarrow>
            if k = CHR ''%'' then map_option ((#) (CHR ''%'')) (c_format r as)
            else if k = CHR ''l'' then
              (case r of
                  l # u # r' \<Rightarrow>
                    if l = CHR ''l'' \<and> u = CHR ''u'' then
                      (case as of
                          A_uint64 w # as' \<Rightarrow> map_option ((@) (dec (unat w))) (c_format r' as')
                        | _ \<Rightarrow> None)
                    else None
                | _ \<Rightarrow> None)
            else
              (case as of
                  [] \<Rightarrow> None
                | a # as' \<Rightarrow>
                    (case conv k a of
                        None \<Rightarrow> None
                      | Some s \<Rightarrow> map_option ((@) s) (c_format r as')))))"

text \<open>\<open>I64Fu\<close>, the format macro of a \<open>uint64_t\<close> (from the VLC headers).\<close>

definition I64Fu :: string where
  "I64Fu = ''%llu''"

subsection \<open>The environment\<close>

text \<open>A socket address: its family tag, and the bytes that only the network
  helpers read.\<close>

datatype sa_family_t = AF_INET | AF_INET6 | AF_other nat

record sockaddr =
  sa_family :: sa_family_t
  sa_data :: "8 word list"

text \<open>
  What sdp.c takes from outside the file: the clock, the host name that
  \<open>gethostname\<close> leaves in the buffer, the package string, the numeric-host
  formatter (address, address length, size of the host buffer; \<open>None\<close> for a
  non-zero return), the multicast test, the UTF-8 test, and the allocator (whether a
  request for that many bytes succeeds; \<open>asprintf\<close> draws on it as well).
  \<open>NDEBUG\<close> tells whether the file was compiled with that macro defined: the
  \<open>assert\<close> macro of \<open>assert.h\<close> then expands to nothing.
\<close>

record env =
  NTPtime64 :: "64 word"
  gethostname :: string
  PACKAGE_STRING :: string
  vlc_getnameinfo :: "sockaddr \<Rightarrow> nat \<Rightarrow> nat \<Rightarrow> string option"
  net_SockAddrIsMulticast :: "sockaddr \<Rightarrow> nat \<Rightarrow> bool"
  IsUTF8 :: "string \<Rightarrow> bool"
  realloc :: "nat \<Rightarrow> bool"
  NDEBUG :: bool

subsection \<open>AddressToSDP\<close>

definition MAXSDPADDRESS :: nat where
  "MAXSDPADDRESS = 47"

text \<open>\<open>offsetof (struct sockaddr, sa_family) + sizeof (addr->sa_family)\<close>: 2 on the
  platforms VLC supports (a 16-bit tag at offset 0, or an 8-bit tag at offset 1).\<close>

definition sa_family_end :: nat where
  "sa_family_end = 2"

definition AddressToSDP :: "env \<Rightarrow> sockaddr \<Rightarrow> nat \<Rightarrow> string option" where
  "AddressToSDP e addr addrlen =
     (if addrlen < sa_family_end then None
      else
        (case vlc_getnameinfo e addr addrlen (MAXSDPADDRESS - 7) of
            None \<Rightarrow> None
          | Some host \<Rightarrow>
              let buf = ''IN IP* '' @ host in
              (case sa_family addr of
                  AF_INET \<Rightarrow>
                    let buf = (if net_SockAddrIsMulticast e addr addrlen
                               then buf @ ''/255'' else buf)
                    in Some (buf[5 := CHR ''4''])
                | AF_INET6 \<Rightarrow>
                    let buf = (case strchr buf (CHR ''%'') of
                                  None \<Rightarrow> buf
                                | Some ptr \<Rightarrow> take ptr buf)
                    in Some (buf[5 := CHR ''6''])
                | AF_other _ \<Rightarrow> None)))"

subsection \<open>IsSDPString\<close>

definition IsSDPString :: "env \<Rightarrow> string \<Rightarrow> bool" where
  "IsSDPString e str =
     (if strchr str CR \<noteq> None then False
      else if strchr str LF \<noteq> None then False
      else if \<not> IsUTF8 e str then False
      else True)"

subsection \<open>sdp_Start\<close>

text \<open>How a call can end without a document: it returns \<open>NULL\<close>, it stops at a
  failed \<open>assert\<close>, or it reaches a formatting call that has no defined result
  (\<open>c_format\<close> gives \<open>None\<close>).\<close>

datatype failure = NullReturned | AssertFailed | Undefined

definition sdp_Start_format :: "env \<Rightarrow> string" where
  "sdp_Start_format e =
     ''v=0''
     @ CRLF @ ''o=- '' @ I64Fu @ '' '' @ I64Fu @ '' IN IP%c %s''
     @ CRLF @ ''s=%s''
     @ CRLF @ ''i=%s''
     @ ''%s%s''
     @ ''%s%s''
     @ ''%s%s''
     @ CRLF @ ''c=%s''
     @ CRLF @ ''t=0 0''
     @ CRLF @ ''a=tool:'' @ PACKAGE_STRING e
     @ CRLF @ ''a=recvonly''
     @ CRLF @ ''a=type:broadcast''
     @ CRLF @ ''a=charset:UTF-8''
     @ ''%s''
     @ CRLF"

definition sfilter_format :: string where
  "sfilter_format = CRLF @ ''a=source-filter: incl IN IP%c * %s''"

definition sdp_Start ::
  "env \<Rightarrow> string option \<Rightarrow> string option \<Rightarrow> string option \<Rightarrow> string option
     \<Rightarrow> string option \<Rightarrow> sockaddr \<Rightarrow> nat \<Rightarrow> sockaddr \<Rightarrow> nat \<Rightarrow> failure + string" where
  "sdp_Start e name description url email phone src srclen addr addrlen =
     (let now = NTPtime64 e;
          hostname = gethostname e;
          name = (case name of None \<Rightarrow> ''Unnamed'' | Some s \<Rightarrow> s);
          description = (case description of None \<Rightarrow> ''N/A'' | Some s \<Rightarrow> s);
          (preurl, url) = (case url of None \<Rightarrow> ('''', '''') | Some s \<Rightarrow> (CRLF @ ''u='', s));
          (premail, email) =
            (case email of None \<Rightarrow> ('''', '''') | Some s \<Rightarrow> (CRLF @ ''e='', s));
          (prephone, phone) =
            (case phone of None \<Rightarrow> ('''', '''') | Some s \<Rightarrow> (CRLF @ ''p='', s))
      in
        if \<not> IsSDPString e name \<or> \<not> IsSDPString e description
           \<or> \<not> IsSDPString e url \<or> \<not> IsSDPString e email \<or> \<not> IsSDPString e phone
        then Inl NullReturned
        else
          (case AddressToSDP e addr addrlen of
              None \<Rightarrow> Inl NullReturned
            | Some connection \<Rightarrow>
                (case (if srclen > 0 then
                         (case AddressToSDP e src srclen of
                             None \<Rightarrow> Some ''''
                           | Some machine \<Rightarrow>
                               c_format sfilter_format
                                 [A_char (machine ! 5), A_str (drop 7 machine)])
                       else Some '''') of
                    None \<Rightarrow> Inl Undefined
                  | Some sfilter \<Rightarrow>
                      (case c_format (sdp_Start_format e)
                              [A_uint64 now, A_uint64 now, A_char (connection ! 5),
                               A_str hostname, A_str name, A_str description,
                               A_str preurl, A_str url, A_str premail, A_str email,
                               A_str prephone, A_str phone, A_str connection,
                               A_str sfilter] of
                          None \<Rightarrow> Inl Undefined
                        | Some sdp \<Rightarrow>
                            if realloc e (length sdp + 1) then Inr sdp
                            else Inl NullReturned))))"

subsection \<open>sdp_AddAttribute\<close>

text \<open>
  The operations that grow a document take the contents of the caller's buffer
  \<open>*sdp\<close>. \<open>Inr\<close> carries the document they hand back; \<open>Inl\<close> carries the way
  the call ended and the contents of the caller's buffer at that point. Which pointer
  holds the document afterwards is not represented: \<open>vsdp_AddAttribute\<close> stores the
  grown buffer in \<open>*sdp\<close> and returns it, the branch of \<open>sdp_AddAttribute\<close> for a
  null format only returns it.

  \<open>vsdp_AddAttribute\<close> measures the value with \<open>vsnprintf (NULL, 0, fmt, ap)\<close>,
  writes \<open>a=name:\<close> and then calls \<open>sprintf (ret + oldlen, fmt, ap)\<close>: the
  argument list object is the one variadic argument of that call.
\<close>

type_synonym result = "(failure \<times> string) + string"

definition vsdp_AddAttribute ::
  "env \<Rightarrow> string \<Rightarrow> string \<Rightarrow> string \<Rightarrow> arg list \<Rightarrow> result" where
  "vsdp_AddAttribute e sdp name fmt ap =
     (let oldlen = length sdp in
      (case c_format fmt ap of
          None \<Rightarrow> Inl (Undefined, sdp)
        | Some v \<Rightarrow>
            let addlen = 6 + length name + length v in
            if \<not> realloc e (oldlen + addlen) then Inl (NullReturned, sdp)
            else
              (case c_format ''a=%s:'' [A_str name] of
                  None \<Rightarrow> Inl (Undefined, sdp)
                | Some head \<Rightarrow>
                    let ret = sdp @ head in
                    (case c_format fmt [A_va_list ap] of
                        None \<Rightarrow> Inl (Undefined, ret)
                      | Some v2 \<Rightarrow> Inr (ret @ v2)))))"

definition sdp_AddAttribute ::
  "env \<Rightarrow> string \<Rightarrow> string \<Rightarrow> string option \<Rightarrow> arg list \<Rightarrow> result" where
  "sdp_AddAttribute e sdp name fmt ap =
     (case fmt of
         Some f \<Rightarrow> vsdp_AddAttribute e sdp name f ap
       | None \<Rightarrow>
           let oldlen = length sdp in
           if \<not> realloc e (oldlen + length name + 5) then Inl (NullReturned, sdp)
           else
             (case c_format (''a=%s'' @ CRLF) [A_str name] of
                 None \<Rightarrow> Inl (Undefined, sdp)
               | Some line \<Rightarrow> Inr (sdp @ line)))"

subsection \<open>sdp_AddMedia\<close>

definition media_format :: string where
  "media_format = ''m=%s %u %s %d'' @ CRLF @ ''b=RR:0'' @ CRLF"

text \<open>A call whose return value the caller drops: after a \<open>NULL\<close> return the
  caller goes on with the buffer as the callee left it. \<open>sdp_AddMedia\<close> returns the
  pointer of its own \<open>realloc\<close>; the model gives the contents of \<open>*sdp\<close> at that
  moment. The payload type is checked by \<open>assert (pt < 128u)\<close> and by nothing else:
  the check stops the call unless \<open>NDEBUG\<close> is defined.\<close>

definition discard_result :: "result \<Rightarrow> result" where
  "discard_result r = (case r of Inl (NullReturned, sdp) \<Rightarrow> Inr sdp | _ \<Rightarrow> r)"

definition sdp_AddMedia ::
  "env \<Rightarrow> string \<Rightarrow> string option \<Rightarrow> string option \<Rightarrow> 32 word \<Rightarrow> 32 word
     \<Rightarrow> bool \<Rightarrow> 32 word \<Rightarrow> string option \<Rightarrow> string option \<Rightarrow> result" where
  "sdp_AddMedia e sdp type protocol dport pt bw_indep bw rtpmap fmtp =
     (let inlen = length sdp;
          type = (case type of None \<Rightarrow> ''video'' | Some s \<Rightarrow> s);
          protocol = (case protocol of None \<Rightarrow> ''RTP/AVP'' | Some s \<Rightarrow> s)
      in
        if \<not> NDEBUG e \<and> \<not> pt < 128 then Inl (AssertFailed, sdp)
        else
          (case c_format media_format
                  [A_str type, A_int dport, A_str protocol, A_unsigned pt] of
              None \<Rightarrow> Inl (Undefined, sdp)
            | Some m \<Rightarrow>
                let outlen = inlen + length m in
                if \<not> realloc e (outlen + 1) then Inl (NullReturned, sdp)
                else
                  let sdp = sdp @ m in
                  (case (case rtpmap of
                            None \<Rightarrow> Inr sdp
                          | Some r \<Rightarrow>
                              discard_result
                                (sdp_AddAttribute e sdp ''rtpmap'' (Some ''%u %s'')
                                   [A_unsigned pt, A_str r])) of
                      Inl x \<Rightarrow> Inl x
                    | Inr sdp \<Rightarrow>
                        (case fmtp of
                            None \<Rightarrow> Inr sdp
                          | Some p \<Rightarrow>
                              discard_result
                                (sdp_AddAttribute e sdp ''fmtp'' (Some ''%u %s'')
                                   [A_unsigned pt, A_str p])))))"

section \<open>Vocabulary of the specification\<close>

text \<open>A text field is line-safe when it has no carriage return, no line feed, and is
  valid in the text encoding (the test for the encoding is a parameter).\<close>

definition line_safe :: "(string \<Rightarrow> bool) \<Rightarrow> string \<Rightarrow> bool" where
  "line_safe valid_utf8 s \<longleftrightarrow> CR \<notin> set s \<and> LF \<notin> set s \<and> valid_utf8 s"

text \<open>A document split at every CRLF: the pieces before each CRLF, then the rest
  after the last one.\<close>

fun split_crlf :: "string \<Rightarrow> string list" where
  "split_crlf (c # d # s) =
     (if c = CR \<and> d = LF then [] # split_crlf s
      else (case split_crlf (d # s) of [] \<Rightarrow> [[c]] | l # ls \<Rightarrow> (c # l) # ls))"
| "split_crlf s = [s]"

definition count_lines :: "string \<Rightarrow> string \<Rightarrow> nat" where
  "count_lines tag doc = length (filter (prefix tag) (split_crlf doc))"

text \<open>Every line of the document is terminated: nothing follows the last CRLF.\<close>

definition lines_terminated :: "string \<Rightarrow> bool" where
  "lines_terminated doc = (last (split_crlf doc) = [])"

definition crlf_lines :: "string list \<Rightarrow> string" where
  "crlf_lines ls = concat (map (\<lambda>l. l @ CRLF) ls)"

definition or_default :: "string \<Rightarrow> string option \<Rightarrow> string" where
  "or_default d x = (case x of None \<Rightarrow> d | Some s \<Rightarrow> s)"

definition optional_line :: "string \<Rightarrow> string option \<Rightarrow> string list" where
  "optional_line tag x = (case x of None \<Rightarrow> [] | Some s \<Rightarrow> [tag @ s])"

text \<open>The lines of a session description, in the order of section 6 of the
  specification; \<open>machine\<close> is the formatted source address, if any.\<close>

definition session_lines ::
  "env \<Rightarrow> string \<Rightarrow> string \<Rightarrow> string option \<Rightarrow> string option \<Rightarrow> string option
     \<Rightarrow> string \<Rightarrow> string option \<Rightarrow> string list" where
  "session_lines e name description url email phone connection machine =
     [''v=0'',
      ''o=- '' @ dec (unat (NTPtime64 e)) @ '' '' @ dec (unat (NTPtime64 e))
        @ '' IN IP'' @ [connection ! 5] @ '' '' @ gethostname e,
      ''s='' @ name,
      ''i='' @ description]
     @ optional_line ''u='' url @ optional_line ''e='' email @ optional_line ''p='' phone
     @ [''c='' @ connection,
        ''t=0 0'',
        ''a=tool:'' @ PACKAGE_STRING e,
        ''a=recvonly'',
        ''a=type:broadcast'',
        ''a=charset:UTF-8'']
     @ (case machine of
           None \<Rightarrow> []
         | Some m \<Rightarrow> [''a=source-filter: incl IN IP'' @ [m ! 5] @ '' * '' @ drop 7 m])"

text \<open>The text that reaches a document from outside the arguments has no carriage
  return, and the package string, which is pasted into a format, has no directive.\<close>

definition plain_env :: "env \<Rightarrow> bool" where
  "plain_env e \<longleftrightarrow>
     CR \<notin> set (gethostname e) \<and> CR \<notin> set (PACKAGE_STRING e)
     \<and> CHR ''%'' \<notin> set (PACKAGE_STRING e)
     \<and> (\<forall>a n m h. vlc_getnameinfo e a n m = Some h \<longrightarrow> CR \<notin> set h)"

subsection \<open>A concrete environment and concrete addresses\<close>

definition ascii :: "string \<Rightarrow> bool" where
  "ascii s = list_all (\<lambda>c. (of_char c :: nat) < 128) s"

definition env0 :: env where
  "env0 = \<lparr> NTPtime64 = 3405691582, gethostname = ''box'', PACKAGE_STRING = ''vlc 0.9.0'',
      vlc_getnameinfo = (\<lambda>a n m. case sa_family a of
           AF_INET \<Rightarrow> Some ''239.1.1.1'' | AF_INET6 \<Rightarrow> Some ''ff02::1%eth0''
         | AF_other _ \<Rightarrow> None),
      net_SockAddrIsMulticast = (\<lambda>a n. True), IsUTF8 = ascii, realloc = (\<lambda>n. True),
      NDEBUG = False \<rparr>"

definition addr4 :: sockaddr where
  "addr4 = \<lparr> sa_family = AF_INET, sa_data = [] \<rparr>"

definition addr6 :: sockaddr where
  "addr6 = \<lparr> sa_family = AF_INET6, sa_data = [] \<rparr>"

definition addrX :: sockaddr where
  "addrX = \<lparr> sa_family = AF_other 1, sa_data = [] \<rparr>"

text \<open>The session description of a stream named "Test Stream" sent to
  239.1.1.1 in that environment, without and with a source filter.\<close>

definition doc0 :: string where
  "doc0 = ''v=0'' @ CRLF @ ''o=- 3405691582 3405691582 IN IP4 box'' @ CRLF
        @ ''s=Test Stream'' @ CRLF @ ''i=demo'' @ CRLF @ ''c=IN IP4 239.1.1.1/255'' @ CRLF
        @ ''t=0 0'' @ CRLF @ ''a=tool:vlc 0.9.0'' @ CRLF @ ''a=recvonly'' @ CRLF
        @ ''a=type:broadcast'' @ CRLF @ ''a=charset:UTF-8'' @ CRLF"

definition doc6 :: string where
  "doc6 = ''v=0'' @ CRLF @ ''o=- 3405691582 3405691582 IN IP4 box'' @ CRLF
        @ ''s=Test Stream'' @ CRLF @ ''i=demo'' @ CRLF @ ''c=IN IP4 239.1.1.1/255'' @ CRLF
        @ ''t=0 0'' @ CRLF @ ''a=tool:vlc 0.9.0'' @ CRLF @ ''a=recvonly'' @ CRLF
        @ ''a=type:broadcast'' @ CRLF @ ''a=charset:UTF-8'' @ CRLF
        @ ''a=source-filter: incl IN IP6 * ff02::1'' @ CRLF"

text \<open>The same stream announced with a contact url and a contact email.\<close>

definition doc_contact :: string where
  "doc_contact = ''v=0'' @ CRLF @ ''o=- 3405691582 3405691582 IN IP4 box'' @ CRLF
        @ ''s=Test Stream'' @ CRLF @ ''i=demo'' @ CRLF @ ''u=http://example.org/'' @ CRLF
        @ ''e=ops@example.org'' @ CRLF @ ''c=IN IP4 239.1.1.1/255'' @ CRLF
        @ ''t=0 0'' @ CRLF @ ''a=tool:vlc 0.9.0'' @ CRLF @ ''a=recvonly'' @ CRLF
        @ ''a=type:broadcast'' @ CRLF @ ''a=charset:UTF-8'' @ CRLF"

text \<open>Environments that differ from \<open>env0\<close> in one point: a host name that holds a
  CRLF followed by the text of a connection line, one that holds a CRLF followed by the
  text of a source-filter attribute, and a build with \<open>NDEBUG\<close> defined. The
  documents are the session descriptions of the same stream in the first two.\<close>

definition env_host_c :: env where
  "env_host_c = env0 \<lparr> gethostname := ''box'' @ CRLF @ ''c=IN IP4 0.0.0.0'' \<rparr>"

definition env_host_a :: env where
  "env_host_a = env0 \<lparr> gethostname := ''box'' @ CRLF @ ''a=source-filter: incl IN IP4 * 10.0.0.1'' \<rparr>"

definition env_ndebug :: env where
  "env_ndebug = env0 \<lparr> NDEBUG := True \<rparr>"

definition doc_host_c :: string where
  "doc_host_c = ''v=0'' @ CRLF @ ''o=- 3405691582 3405691582 IN IP4 box'' @ CRLF
        @ ''c=IN IP4 0.0.0.0'' @ CRLF
        @ ''s=Test Stream'' @ CRLF @ ''i=demo'' @ CRLF @ ''c=IN IP4 239.1.1.1/255'' @ CRLF
        @ ''t=0 0'' @ CRLF @ ''a=tool:vlc 0.9.0'' @ CRLF @ ''a=recvonly'' @ CRLF
        @ ''a=type:broadcast'' @ CRLF @ ''a=charset:UTF-8'' @ CRLF"

definition doc_host_a :: string where
  "doc_host_a = ''v=0'' @ CRLF @ ''o=- 3405691582 3405691582 IN IP4 box'' @ CRLF
        @ ''a=source-filter: incl IN IP4 * 10.0.0.1'' @ CRLF
        @ ''s=Test Stream'' @ CRLF @ ''i=demo'' @ CRLF @ ''c=IN IP4 239.1.1.1/255'' @ CRLF
        @ ''t=0 0'' @ CRLF @ ''a=tool:vlc 0.9.0'' @ CRLF @ ''a=recvonly'' @ CRLF
        @ ''a=type:broadcast'' @ CRLF @ ''a=charset:UTF-8'' @ CRLF"


section \<open>Auxiliary facts\<close>

lemma strchr_None_iff: "strchr s c = None \<longleftrightarrow> c \<notin> set s"
  by (induction s) auto

lemma digit_in: "digit n \<in> set ''0123456789''"
proof -
  have "n mod 10 < length ''0123456789''" by simp
  then show ?thesis unfolding digit_def by (rule nth_mem)
qed

lemma dec_digits: "set (dec n) \<subseteq> set ''0123456789''"
proof (induction n rule: dec.induct)
  case (1 n)
  show ?case
  proof (cases "n < 10")
    case True
    then show ?thesis using digit_in [of n] by (subst dec.simps) simp
  next
    case False
    then show ?thesis using 1 digit_in [of n] by (subst dec.simps) simp
  qed
qed

lemma dec_no_CR: "CR \<notin> set (dec n)"
  using dec_digits [of n] by auto

lemma c_format_literal:
  "CHR ''%'' \<notin> set l \<Longrightarrow> c_format (l @ f) as = map_option ((@) l) (c_format f as)"
proof (induction l)
  case Nil
  show ?case by (cases "c_format f as") simp_all
next
  case (Cons a l)
  then show ?case by (cases "c_format f as") auto
qed

lemma c_format_start:
  assumes "CHR ''%'' \<notin> set (PACKAGE_STRING e)"
  shows "c_format (sdp_Start_format e)
           [A_uint64 now, A_uint64 now, A_char c, A_str hostname, A_str name,
            A_str description, A_str preurl, A_str url, A_str premail, A_str email,
            A_str prephone, A_str phone, A_str connection, A_str sfilter]
         = Some (''v=0'' @ CRLF @ ''o=- '' @ dec (unat now) @ '' '' @ dec (unat now)
             @ '' IN IP'' @ [c] @ '' '' @ hostname
             @ CRLF @ ''s='' @ name
             @ CRLF @ ''i='' @ description
             @ preurl @ url @ premail @ email @ prephone @ phone
             @ CRLF @ ''c='' @ connection
             @ CRLF @ ''t=0 0''
             @ CRLF @ ''a=tool:'' @ PACKAGE_STRING e
             @ CRLF @ ''a=recvonly''
             @ CRLF @ ''a=type:broadcast''
             @ CRLF @ ''a=charset:UTF-8''
             @ sfilter @ CRLF)"
  using assms by (simp add: sdp_Start_format_def I64Fu_def c_format_literal)

lemma vsdp_AddAttribute_plain:
  assumes "CHR ''%'' \<notin> set fmt" and "realloc e (length sdp + (6 + length name + length fmt))"
  shows "vsdp_AddAttribute e sdp name fmt ap = Inr (sdp @ ''a='' @ name @ '':'' @ fmt)"
proof -
  have "c_format fmt as = Some fmt" for as
    using c_format_literal [OF assms(1), of "[]" as] by simp
  with assms(2) show ?thesis
    by (simp add: vsdp_AddAttribute_def)
qed

lemma c_format_sfilter:
  "c_format sfilter_format [A_char c, A_str s]
     = Some (CRLF @ ''a=source-filter: incl IN IP'' @ [c] @ '' * '' @ s)"
  by (simp add: sfilter_format_def)

lemma sdp_Start_eq:
  assumes pkg: "CHR ''%'' \<notin> set (PACKAGE_STRING e)"
  shows "sdp_Start e name description url email phone src srclen addr addrlen =
     (if \<not> IsSDPString e (or_default ''Unnamed'' name)
         \<or> \<not> IsSDPString e (or_default ''N/A'' description)
         \<or> \<not> IsSDPString e (or_default '''' url)
         \<or> \<not> IsSDPString e (or_default '''' email)
         \<or> \<not> IsSDPString e (or_default '''' phone)
      then Inl NullReturned
      else (case AddressToSDP e addr addrlen of
          None \<Rightarrow> Inl NullReturned
        | Some connection \<Rightarrow>
            let doc = crlf_lines (session_lines e (or_default ''Unnamed'' name)
                        (or_default ''N/A'' description) url email phone connection
                        (if srclen > 0 then AddressToSDP e src srclen else None))
            in if realloc e (length doc + 1) then Inr doc else Inl NullReturned))"
proof -
  note fmt = c_format_start [OF pkg] c_format_sfilter
  show ?thesis
    unfolding sdp_Start_def Let_def
    by (cases url; cases email; cases phone; cases "AddressToSDP e addr addrlen";
        cases "AddressToSDP e src srclen")
       (simp_all add: fmt or_default_def crlf_lines_def session_lines_def optional_line_def)
qed

lemma split_crlf_nonempty: "split_crlf s \<noteq> []"
  by (induction s rule: split_crlf.induct) (auto split: list.splits)

lemma split_crlf_line:
  "CR \<notin> set a \<Longrightarrow> split_crlf (a @ CR # LF # b) = a # split_crlf b"
proof (induction a)
  case Nil
  show ?case by simp
next
  case (Cons c a)
  then have ih: "split_crlf (a @ CR # LF # b) = a # split_crlf b" and c: "c \<noteq> CR"
    by auto
  show ?case
  proof (cases a)
    case Nil
    with c ih show ?thesis by simp
  next
    case (Cons d a')
    with c ih show ?thesis by simp
  qed
qed

lemma split_crlf_lines:
  "\<forall>l\<in>set ls. CR \<notin> set l \<Longrightarrow> split_crlf (crlf_lines ls) = ls @ [[]]"
proof (induction ls)
  case Nil
  show ?case by (simp add: crlf_lines_def)
next
  case (Cons l ls)
  then have "split_crlf (crlf_lines ls) = ls @ [[]]" and "CR \<notin> set l" by simp_all
  moreover have "crlf_lines (l # ls) = l @ CR # LF # crlf_lines ls"
    by (simp add: crlf_lines_def)
  ultimately show ?case by (simp add: split_crlf_line)
qed

lemma count_lines_crlf_lines:
  "\<forall>l\<in>set ls. CR \<notin> set l \<Longrightarrow> tag \<noteq> [] \<Longrightarrow>
     count_lines tag (crlf_lines ls) = length (filter (prefix tag) ls)"
  by (simp add: count_lines_def split_crlf_lines)

lemma lines_terminated_crlf_lines:
  "\<forall>l\<in>set ls. CR \<notin> set l \<Longrightarrow> lines_terminated (crlf_lines ls)"
  by (simp add: lines_terminated_def split_crlf_lines)

lemma IsSDPString_iff:
  "IsSDPString e str \<longleftrightarrow> CR \<notin> set str \<and> LF \<notin> set str \<and> IsUTF8 e str"
  by (simp add: IsSDPString_def strchr_None_iff)

lemma strchr_take:
  "(case strchr s c of None \<Rightarrow> s | Some i \<Rightarrow> take i s) = takeWhile (\<lambda>x. x \<noteq> c) s"
  by (induction s) (auto split: option.splits)

lemma update_5: "(a # b # c # d # e # f # xs)[5 := y] = a # b # c # d # e # y # xs"
  by (simp add: eval_nat_numeral)

lemma AddressToSDP_eq:
  "AddressToSDP e addr addrlen =
     (if addrlen < sa_family_end then None
      else (case vlc_getnameinfo e addr addrlen (MAXSDPADDRESS - 7) of
          None \<Rightarrow> None
        | Some host \<Rightarrow>
            (case sa_family addr of
                AF_INET \<Rightarrow>
                  Some (''IN IP4 '' @ host
                        @ (if net_SockAddrIsMulticast e addr addrlen then ''/255'' else []))
              | AF_INET6 \<Rightarrow> Some (''IN IP6 '' @ takeWhile (\<lambda>c. c \<noteq> CHR ''%'') host)
              | AF_other _ \<Rightarrow> None)))"
  unfolding AddressToSDP_def Let_def strchr_take
  by (simp add: update_5 split: option.splits sa_family_t.splits)

lemma AddressToSDP_no_CR:
  assumes "AddressToSDP e addr addrlen = Some out"
    and "\<forall>a n m h. vlc_getnameinfo e a n m = Some h \<longrightarrow> CR \<notin> set h"
  shows "CR \<notin> set out"
proof -
  from assms(1) obtain host where
    h: "vlc_getnameinfo e addr addrlen (MAXSDPADDRESS - 7) = Some host"
    by (auto simp: AddressToSDP_eq split: if_splits option.splits)
  with assms(2) have nocr: "CR \<notin> set host" by blast
  then have "CR \<notin> set (takeWhile (\<lambda>c. c \<noteq> CHR ''%'') host)"
    by (meson set_takeWhileD)
  with assms(1) h nocr show ?thesis
    by (auto simp: AddressToSDP_eq split: if_splits sa_family_t.splits)
qed

lemma AddressToSDP_marker:
  assumes "AddressToSDP e addr addrlen = Some out"
  shows "out ! 5 \<noteq> CR \<and> 7 \<le> length out"
  using assms
  by (auto simp: AddressToSDP_eq eval_nat_numeral split: if_splits sa_family_t.splits option.splits)

lemma sdp_Start_invalid:
  assumes "\<not> IsSDPString e (or_default ''Unnamed'' name)
         \<or> \<not> IsSDPString e (or_default ''N/A'' description)
         \<or> \<not> IsSDPString e (or_default '''' url)
         \<or> \<not> IsSDPString e (or_default '''' email)
         \<or> \<not> IsSDPString e (or_default '''' phone)"
  shows "sdp_Start e name description url email phone src srclen addr addrlen = Inl NullReturned"
proof -
  obtain preurl u where u: "(case url of None \<Rightarrow> ('''', '''') | Some s \<Rightarrow> (CRLF @ ''u='', s)) = (preurl, u)"
    and u': "u = or_default '''' url"
    by (cases url) (simp_all add: or_default_def)
  obtain premail m where m: "(case email of None \<Rightarrow> ('''', '''') | Some s \<Rightarrow> (CRLF @ ''e='', s)) = (premail, m)"
    and m': "m = or_default '''' email"
    by (cases email) (simp_all add: or_default_def)
  obtain prephone p where p: "(case phone of None \<Rightarrow> ('''', '''') | Some s \<Rightarrow> (CRLF @ ''p='', s)) = (prephone, p)"
    and p': "p = or_default '''' phone"
    by (cases phone) (simp_all add: or_default_def)
  from assms have "\<not> IsSDPString e (case name of None \<Rightarrow> ''Unnamed'' | Some s \<Rightarrow> s)
         \<or> \<not> IsSDPString e (case description of None \<Rightarrow> ''N/A'' | Some s \<Rightarrow> s)
         \<or> \<not> IsSDPString e u \<or> \<not> IsSDPString e m \<or> \<not> IsSDPString e p"
    by (simp add: u' m' p' or_default_def)
  then show ?thesis
    unfolding sdp_Start_def Let_def u m p prod.case
    by (rule if_P)
qed

text \<open>Session initialization succeeds on valid inputs, whatever the source address.\<close>

lemma sdp_Start_succeeds:
  assumes "CHR ''%'' \<notin> set (PACKAGE_STRING e)"
    and "IsSDPString e (or_default ''Unnamed'' name)"
    and "IsSDPString e (or_default ''N/A'' description)"
    and "IsSDPString e (or_default [] url)"
    and "IsSDPString e (or_default [] email)"
    and "IsSDPString e (or_default [] phone)"
    and "AddressToSDP e addr addrlen = Some connection"
    and "\<forall>n. realloc e n"
  shows "\<exists>doc. sdp_Start e name description url email phone src srclen addr addrlen = Inr doc"
  using assms by (simp add: sdp_Start_eq Let_def)

lemma session_lines_no_CR:
  assumes env: "plain_env e"
    and "CR \<notin> set name" "CR \<notin> set description"
    and "\<forall>s. url = Some s \<longrightarrow> CR \<notin> set s"
    and "\<forall>s. email = Some s \<longrightarrow> CR \<notin> set s"
    and "\<forall>s. phone = Some s \<longrightarrow> CR \<notin> set s"
    and "CR \<notin> set connection" "connection ! 5 \<noteq> CR"
    and "\<forall>m. machine = Some m \<longrightarrow> CR \<notin> set m \<and> m ! 5 \<noteq> CR"
  shows "\<forall>l\<in>set (session_lines e name description url email phone connection machine).
           CR \<notin> set l"
proof -
  have drop7: "\<And>m. CR \<notin> set m \<Longrightarrow> CR \<notin> set (drop 7 m)"
    by (meson in_set_dropD)
  from assms show ?thesis
    by (auto simp: session_lines_def optional_line_def plain_env_def dec_no_CR
        dest: drop7 [rotated] in_set_dropD split: option.splits)
qed

lemma session_lines_counts:
  "length (filter (prefix ''v='') (session_lines e n d u em p c m)) = 1"
  "length (filter (prefix ''o='') (session_lines e n d u em p c m)) = 1"
  "length (filter (prefix ''s='') (session_lines e n d u em p c m)) = 1"
  "length (filter (prefix ''i='') (session_lines e n d u em p c m)) = 1"
  "length (filter (prefix ''c='') (session_lines e n d u em p c m)) = 1"
  "length (filter (prefix ''t='') (session_lines e n d u em p c m)) = 1"
  "length (filter (prefix ''u='') (session_lines e n d u em p c m)) = (if u = None then 0 else 1)"
  "length (filter (prefix ''e='') (session_lines e n d u em p c m)) = (if em = None then 0 else 1)"
  "length (filter (prefix ''p='') (session_lines e n d u em p c m)) = (if p = None then 0 else 1)"
  "length (filter (prefix ''a=source-filter'') (session_lines e n d u em p c m))
     = (if m = None then 0 else 1)"
  by (simp_all add: session_lines_def optional_line_def split: option.splits)

lemma sdp_Start_Inr:
  assumes env: "plain_env e"
    and ok: "sdp_Start e name description url email phone src srclen addr addrlen = Inr doc"
  shows "\<exists>connection ls. AddressToSDP e addr addrlen = Some connection
           \<and> ls = session_lines e (or_default ''Unnamed'' name) (or_default ''N/A'' description)
                    url email phone connection
                    (if srclen > 0 then AddressToSDP e src srclen else None)
           \<and> doc = crlf_lines ls \<and> (\<forall>l\<in>set ls. CR \<notin> set l)"
proof -
  from env have pkg: "CHR ''%'' \<notin> set (PACKAGE_STRING e)"
    and gni: "\<forall>a n m h. vlc_getnameinfo e a n m = Some h \<longrightarrow> CR \<notin> set h"
    by (simp_all add: plain_env_def)
  let ?machine = "if srclen > 0 then AddressToSDP e src srclen else None"
  from ok obtain connection where
    valid: "IsSDPString e (or_default ''Unnamed'' name)"
      "IsSDPString e (or_default ''N/A'' description)"
      "IsSDPString e (or_default '''' url)"
      "IsSDPString e (or_default '''' email)"
      "IsSDPString e (or_default '''' phone)"
    and conn: "AddressToSDP e addr addrlen = Some connection"
    and doc: "doc = crlf_lines (session_lines e (or_default ''Unnamed'' name)
                (or_default ''N/A'' description) url email phone connection ?machine)"
    unfolding sdp_Start_eq [OF pkg] Let_def
    by (auto split: if_splits option.splits)
  have m: "\<forall>m. ?machine = Some m \<longrightarrow> CR \<notin> set m \<and> m ! 5 \<noteq> CR"
    using AddressToSDP_no_CR [OF _ gni] AddressToSDP_marker
    by (auto split: if_splits)
  have "\<forall>l\<in>set (session_lines e (or_default ''Unnamed'' name)
                (or_default ''N/A'' description) url email phone connection ?machine).
           CR \<notin> set l"
  proof (rule session_lines_no_CR [OF env])
    show "CR \<notin> set (or_default ''Unnamed'' name)" "CR \<notin> set (or_default ''N/A'' description)"
      using valid by (simp_all add: IsSDPString_iff)
    show "\<forall>s. url = Some s \<longrightarrow> CR \<notin> set s" "\<forall>s. email = Some s \<longrightarrow> CR \<notin> set s"
      "\<forall>s. phone = Some s \<longrightarrow> CR \<notin> set s"
      using valid by (auto simp: IsSDPString_iff or_default_def)
    show "CR \<notin> set connection" using AddressToSDP_no_CR [OF conn gni] .
    show "connection ! 5 \<noteq> CR" using AddressToSDP_marker [OF conn] by simp
    show "\<forall>m. ?machine = Some m \<longrightarrow> CR \<notin> set m \<and> m ! 5 \<noteq> CR" by (rule m)
  qed
  with conn doc show ?thesis by blast
qed

lemma split_crlf_no_CR: "CR \<notin> set s \<Longrightarrow> split_crlf s = [s]"
  by (induction s rule: split_crlf.induct) auto

lemma split_crlf_lines_append:
  "\<forall>l\<in>set ls. CR \<notin> set l \<Longrightarrow> CR \<notin> set r \<Longrightarrow> split_crlf (crlf_lines ls @ r) = ls @ [r]"
proof (induction ls)
  case Nil
  then show ?case by (simp add: crlf_lines_def split_crlf_no_CR)
next
  case (Cons l ls)
  then have ih: "split_crlf (crlf_lines ls @ r) = ls @ [r]" and l: "CR \<notin> set l"
    by simp_all
  have eq: "crlf_lines (l # ls) @ r = l @ CR # LF # (crlf_lines ls @ r)"
    by (simp add: crlf_lines_def)
  show ?case
    unfolding eq split_crlf_line [OF l] ih by simp
qed

subsection \<open>The concrete environment\<close>

lemma env0_plain: "plain_env env0"
  by (simp add: plain_env_def env0_def split: sa_family_t.splits)

lemma AddressToSDP_addr4: "AddressToSDP env0 addr4 16 = Some ''IN IP4 239.1.1.1/255''"
  by (simp add: AddressToSDP_eq env0_def addr4_def sa_family_end_def MAXSDPADDRESS_def)

lemma AddressToSDP_addr6: "AddressToSDP env0 addr6 28 = Some ''IN IP6 ff02::1''"
  by (simp add: AddressToSDP_eq env0_def addr6_def sa_family_end_def MAXSDPADDRESS_def)

lemma AddressToSDP_addrX: "AddressToSDP env0 addrX 16 = None"
  by (simp add: AddressToSDP_eq env0_def addrX_def sa_family_end_def MAXSDPADDRESS_def)

lemma dec_example: "dec (unat (NTPtime64 env0)) = ''3405691582''"
  by (simp add: env0_def dec.simps digit_def)

lemma env0_fields:
  "gethostname env0 = ''box''" "PACKAGE_STRING env0 = ''vlc 0.9.0''"
  "IsUTF8 env0 = ascii" "realloc env0 n" "\<not> NDEBUG env0"
  by (simp_all add: env0_def)

lemma start_example:
  "sdp_Start env0 (Some ''Test Stream'') (Some ''demo'') None None None addr4 0 addr4 16
   = Inr doc0"
proof -
  have pkg: "CHR ''%'' \<notin> set (PACKAGE_STRING env0)" by (simp add: env0_fields)
  show ?thesis
    unfolding sdp_Start_eq [OF pkg]
    by (simp add: AddressToSDP_addr4 IsSDPString_iff or_default_def env0_fields ascii_def
        session_lines_def optional_line_def crlf_lines_def dec_example doc0_def)
qed

lemma start_example_bad_source:
  "sdp_Start env0 (Some ''Test Stream'') (Some ''demo'') None None None addrX 16 addr4 16
   = Inr doc0"
proof -
  have pkg: "CHR ''%'' \<notin> set (PACKAGE_STRING env0)" by (simp add: env0_fields)
  show ?thesis
    unfolding sdp_Start_eq [OF pkg]
    by (simp add: AddressToSDP_addr4 AddressToSDP_addrX IsSDPString_iff or_default_def
        env0_fields ascii_def session_lines_def optional_line_def crlf_lines_def dec_example
        doc0_def)
qed

lemma start_example_source:
  "sdp_Start env0 (Some ''Test Stream'') (Some ''demo'') None None None addr6 28 addr4 16
   = Inr doc6"
proof -
  have pkg: "CHR ''%'' \<notin> set (PACKAGE_STRING env0)" by (simp add: env0_fields)
  show ?thesis
    unfolding sdp_Start_eq [OF pkg]
    by (simp add: AddressToSDP_addr4 AddressToSDP_addr6 IsSDPString_iff or_default_def
        env0_fields ascii_def session_lines_def optional_line_def crlf_lines_def dec_example
        doc6_def)
qed

lemma doc0_lines: "doc0 = crlf_lines [''v=0'', ''o=- 3405691582 3405691582 IN IP4 box'',
    ''s=Test Stream'', ''i=demo'', ''c=IN IP4 239.1.1.1/255'', ''t=0 0'', ''a=tool:vlc 0.9.0'',
    ''a=recvonly'', ''a=type:broadcast'', ''a=charset:UTF-8'']"
  by (simp add: doc0_def crlf_lines_def)

lemma line_safe_IsSDPString: "line_safe (IsUTF8 e) s \<Longrightarrow> IsSDPString e s"
  by (simp add: IsSDPString_iff line_safe_def)

lemma start_example_contact:
  "sdp_Start env0 (Some ''Test Stream'') (Some ''demo'') (Some ''http://example.org/'')
     (Some ''ops@example.org'') None addr4 0 addr4 16 = Inr doc_contact"
proof -
  have pkg: "CHR ''%'' \<notin> set (PACKAGE_STRING env0)" by (simp add: env0_fields)
  show ?thesis
    unfolding sdp_Start_eq [OF pkg]
    by (simp add: AddressToSDP_addr4 IsSDPString_iff or_default_def env0_fields ascii_def
        session_lines_def optional_line_def crlf_lines_def dec_example doc_contact_def)
qed

lemma AddressToSDP_gethostname_update:
  "AddressToSDP (e \<lparr> gethostname := h \<rparr>) addr addrlen = AddressToSDP e addr addrlen"
  by (simp add: AddressToSDP_eq split: option.splits sa_family_t.splits)

lemma env_host_c_fields:
  "gethostname env_host_c = ''box'' @ CRLF @ ''c=IN IP4 0.0.0.0''"
  "PACKAGE_STRING env_host_c = ''vlc 0.9.0''" "IsUTF8 env_host_c = ascii"
  "realloc env_host_c n" "NTPtime64 env_host_c = NTPtime64 env0"
  "AddressToSDP env_host_c addr addrlen = AddressToSDP env0 addr addrlen"
  by (simp_all add: env_host_c_def env0_fields AddressToSDP_gethostname_update)

lemma env_host_a_fields:
  "gethostname env_host_a = ''box'' @ CRLF @ ''a=source-filter: incl IN IP4 * 10.0.0.1''"
  "PACKAGE_STRING env_host_a = ''vlc 0.9.0''" "IsUTF8 env_host_a = ascii"
  "realloc env_host_a n" "NTPtime64 env_host_a = NTPtime64 env0"
  "AddressToSDP env_host_a addr addrlen = AddressToSDP env0 addr addrlen"
  by (simp_all add: env_host_a_def env0_fields AddressToSDP_gethostname_update)

lemma doc_host_c_lines:
  "doc_host_c = crlf_lines [''v=0'', ''o=- 3405691582 3405691582 IN IP4 box'',
     ''c=IN IP4 0.0.0.0'', ''s=Test Stream'', ''i=demo'', ''c=IN IP4 239.1.1.1/255'',
     ''t=0 0'', ''a=tool:vlc 0.9.0'', ''a=recvonly'', ''a=type:broadcast'',
     ''a=charset:UTF-8'']"
  by (simp add: doc_host_c_def crlf_lines_def)

lemma doc_host_a_lines:
  "doc_host_a = crlf_lines [''v=0'', ''o=- 3405691582 3405691582 IN IP4 box'',
     ''a=source-filter: incl IN IP4 * 10.0.0.1'', ''s=Test Stream'', ''i=demo'',
     ''c=IN IP4 239.1.1.1/255'', ''t=0 0'', ''a=tool:vlc 0.9.0'', ''a=recvonly'',
     ''a=type:broadcast'', ''a=charset:UTF-8'']"
  by (simp add: doc_host_a_def crlf_lines_def)

section \<open>The string validator\<close>

text \<open>
  Claim C4. The string validator accepts a text field if and only if the field has no
  carriage return, no line feed, and passes the UTF-8 test: it decides line-safety.
\<close>

theorem IsSDPString_line_safe: "IsSDPString e str = line_safe (IsUTF8 e) str"
  by (simp add: IsSDPString_def line_safe_def strchr_None_iff)

theorem IsSDPString_line_safe_witness:
  "IsSDPString env0 ''Test Stream'' \<and> \<not> IsSDPString env0 (''Test'' @ CRLF @ ''Stream'')"
  using IsSDPString_line_safe [of env0 "''Test Stream''"]
    IsSDPString_line_safe [of env0 "''Test'' @ CRLF @ ''Stream''"]
  by (simp add: line_safe_def env0_def ascii_def)

section \<open>The address formatter\<close>

text \<open>
  Claim C5. For an IPv4 socket address that is long enough to hold its family tag and
  whose numeric host can be formatted, the address formatter returns a text that starts
  with "IN IP4 "; when the address is a multicast address the text ends with "/255".
\<close>

theorem AddressToSDP_IPv4:
  assumes "sa_family addr = AF_INET"
    and "sa_family_end \<le> addrlen"
    and "vlc_getnameinfo e addr addrlen (MAXSDPADDRESS - 7) = Some host"
  shows "\<exists>out. AddressToSDP e addr addrlen = Some out \<and> prefix ''IN IP4 '' out
           \<and> (net_SockAddrIsMulticast e addr addrlen \<longrightarrow> suffix ''/255'' out)"
proof -
  let ?out = "''IN IP4 '' @ host @ (if net_SockAddrIsMulticast e addr addrlen then ''/255'' else [])"
  from assms have "AddressToSDP e addr addrlen = Some ?out"
    by (simp add: AddressToSDP_eq)
  moreover have "prefix ''IN IP4 '' ?out" by simp
  moreover have "net_SockAddrIsMulticast e addr addrlen \<longrightarrow> suffix ''/255'' ?out"
    by (simp add: suffix_def)
  ultimately show ?thesis by blast
qed

theorem AddressToSDP_IPv4_witness:
  "\<exists>out. AddressToSDP env0 addr4 16 = Some out \<and> prefix ''IN IP4 '' out \<and> suffix ''/255'' out"
  using AddressToSDP_IPv4 [of addr4 16 env0 "''239.1.1.1''"]
  by (simp add: env0_def addr4_def sa_family_end_def MAXSDPADDRESS_def)

section \<open>Session initialization\<close>

text \<open>
  Claim C7. When one of the supplied text fields (name, description, url, email, phone)
  is not line-safe, session initialization returns the null pointer, whatever the
  addresses, the environment and the allocator are: no document is produced, and the
  call ends before anything is allocated.
\<close>

theorem sdp_Start_rejects_unsafe_text:
  assumes "Some s \<in> {name, description, url, email, phone}"
    and "\<not> line_safe (IsUTF8 e) s"
  shows "sdp_Start e name description url email phone src srclen addr addrlen = Inl NullReturned"
proof -
  from assms(2) have "\<not> IsSDPString e s"
    by (auto simp: IsSDPString_iff line_safe_def)
  with assms(1) have "\<not> IsSDPString e (or_default ''Unnamed'' name)
         \<or> \<not> IsSDPString e (or_default ''N/A'' description)
         \<or> \<not> IsSDPString e (or_default '''' url)
         \<or> \<not> IsSDPString e (or_default '''' email)
         \<or> \<not> IsSDPString e (or_default '''' phone)"
    by (auto simp: or_default_def)
  then show ?thesis by (rule sdp_Start_invalid)
qed

theorem sdp_Start_rejects_unsafe_text_witness:
  "sdp_Start env0 (Some (''Test'' @ CRLF @ ''Stream'')) None None None None addr4 0 addr4 16
     = Inl NullReturned"
  using sdp_Start_rejects_unsafe_text
    [of "''Test'' @ CRLF @ ''Stream''" "Some (''Test'' @ CRLF @ ''Stream'')" None None None None env0
        addr4 0 addr4 16]
  by (simp add: line_safe_def)

text \<open>
  Claim C6, amended. The environment is plain: the host name, the package string and
  the numeric host texts have no carriage return, and the package string has no format
  directive. For every session initialization whose text fields are line-safe (the
  default standing for a missing name or description, the empty text for a missing url,
  email or phone), whose session address is formatted and whose allocation succeeds, a
  document is produced; split at CRLF it has exactly one line starting with v=, one
  with o=, one with s=, one with i=, one with c= and one with t=, and it has one line
  starting with u=, e= or p= when the url, the email or the phone was supplied, and
  none when it was not.
\<close>

theorem sdp_Start_line_structure:
  assumes env: "plain_env e"
    and name: "line_safe (IsUTF8 e) (or_default ''Unnamed'' name)"
    and description: "line_safe (IsUTF8 e) (or_default ''N/A'' description)"
    and url: "line_safe (IsUTF8 e) (or_default [] url)"
    and email: "line_safe (IsUTF8 e) (or_default [] email)"
    and phone: "line_safe (IsUTF8 e) (or_default [] phone)"
    and addr: "AddressToSDP e addr addrlen = Some connection"
    and alloc: "\<forall>n. realloc e n"
  shows "\<exists>doc. sdp_Start e name description url email phone src srclen addr addrlen = Inr doc
       \<and> count_lines ''v='' doc = 1 \<and> count_lines ''o='' doc = 1
       \<and> count_lines ''s='' doc = 1 \<and> count_lines ''i='' doc = 1
       \<and> count_lines ''c='' doc = 1 \<and> count_lines ''t='' doc = 1
       \<and> count_lines ''u='' doc = (if url = None then 0 else 1)
       \<and> count_lines ''e='' doc = (if email = None then 0 else 1)
       \<and> count_lines ''p='' doc = (if phone = None then 0 else 1)"
proof -
  from env have pkg: "CHR ''%'' \<notin> set (PACKAGE_STRING e)"
    by (simp add: plain_env_def)
  from sdp_Start_succeeds [OF pkg name [THEN line_safe_IsSDPString]
      description [THEN line_safe_IsSDPString] url [THEN line_safe_IsSDPString]
      email [THEN line_safe_IsSDPString] phone [THEN line_safe_IsSDPString] addr alloc]
  obtain doc where
    ok: "sdp_Start e name description url email phone src srclen addr addrlen = Inr doc"
    by blast
  from sdp_Start_Inr [OF env ok] obtain c ls where
    ls: "ls = session_lines e (or_default ''Unnamed'' name) (or_default ''N/A'' description)
               url email phone c
               (if srclen > 0 then AddressToSDP e src srclen else None)"
    and doc: "doc = crlf_lines ls" and nocr: "\<forall>l\<in>set ls. CR \<notin> set l"
    by blast
  have cnt: "\<And>tag. tag \<noteq> [] \<Longrightarrow> count_lines tag doc = length (filter (prefix tag) ls)"
    unfolding doc using nocr by (rule count_lines_crlf_lines)
  have "count_lines ''v='' doc = 1 \<and> count_lines ''o='' doc = 1
       \<and> count_lines ''s='' doc = 1 \<and> count_lines ''i='' doc = 1
       \<and> count_lines ''c='' doc = 1 \<and> count_lines ''t='' doc = 1
       \<and> count_lines ''u='' doc = (if url = None then 0 else 1)
       \<and> count_lines ''e='' doc = (if email = None then 0 else 1)
       \<and> count_lines ''p='' doc = (if phone = None then 0 else 1)"
    by (simp add: cnt ls session_lines_counts)
  with ok show ?thesis by blast
qed

theorem sdp_Start_line_structure_witness:
  "sdp_Start env0 (Some ''Test Stream'') (Some ''demo'') (Some ''http://example.org/'')
     (Some ''ops@example.org'') None addr4 0 addr4 16 = Inr doc_contact
   \<and> count_lines ''v='' doc_contact = 1 \<and> count_lines ''o='' doc_contact = 1
   \<and> count_lines ''s='' doc_contact = 1 \<and> count_lines ''i='' doc_contact = 1
   \<and> count_lines ''c='' doc_contact = 1 \<and> count_lines ''t='' doc_contact = 1
   \<and> count_lines ''u='' doc_contact = 1 \<and> count_lines ''e='' doc_contact = 1
   \<and> count_lines ''p='' doc_contact = 0"
proof -
  have safe: "line_safe (IsUTF8 env0) (or_default ''Unnamed'' (Some ''Test Stream''))"
    "line_safe (IsUTF8 env0) (or_default ''N/A'' (Some ''demo''))"
    "line_safe (IsUTF8 env0) (or_default [] (Some ''http://example.org/''))"
    "line_safe (IsUTF8 env0) (or_default [] (Some ''ops@example.org''))"
    "line_safe (IsUTF8 env0) (or_default [] None)"
    by (simp_all add: line_safe_def or_default_def env0_fields ascii_def)
  have alloc: "\<forall>n. realloc env0 n" by (simp add: env0_fields)
  from sdp_Start_line_structure [OF env0_plain safe AddressToSDP_addr4 alloc, of addr4 0]
  show ?thesis by (simp add: start_example_contact)
qed

text \<open>
  The claim as written, without the condition on the environment, fails: the host name
  is copied into the o= line unchecked, and a host name that holds a CRLF and the text
  of a connection line gives a document with two lines starting with c=.
\<close>

theorem sdp_Start_line_structure_counterexample:
  "line_safe (IsUTF8 env_host_c) ''Test Stream'' \<and> line_safe (IsUTF8 env_host_c) ''demo''
   \<and> AddressToSDP env_host_c addr4 16 = Some ''IN IP4 239.1.1.1/255''
   \<and> sdp_Start env_host_c (Some ''Test Stream'') (Some ''demo'') None None None
        addr4 0 addr4 16 = Inr doc_host_c
   \<and> count_lines ''c='' doc_host_c = 2"
proof -
  have pkg: "CHR ''%'' \<notin> set (PACKAGE_STRING env_host_c)"
    by (simp add: env_host_c_fields)
  have "sdp_Start env_host_c (Some ''Test Stream'') (Some ''demo'') None None None
        addr4 0 addr4 16 = Inr doc_host_c"
    unfolding sdp_Start_eq [OF pkg]
    by (simp add: AddressToSDP_addr4 IsSDPString_iff or_default_def env_host_c_fields
        ascii_def session_lines_def optional_line_def crlf_lines_def dec_example
        doc_host_c_def)
  moreover have "count_lines ''c='' doc_host_c = 2"
    unfolding doc_host_c_lines by (subst count_lines_crlf_lines) simp_all
  ultimately show ?thesis
    by (simp add: line_safe_def env_host_c_fields ascii_def AddressToSDP_addr4)
qed

text \<open>
  Claim C8, amended. In a plain environment, for every session initialization with
  line-safe text fields, a formatted session address, a successful allocation and a
  source address supplied (its length is not zero), a document is produced. When the
  source address cannot be formatted, it is the document of the same call without a
  source address and has no line starting with a=source-filter. When the source
  address is formatted, the document has one such line and ends with it: the
  source-filter attribute made of the IP-version marker and the numeric host of the
  formatted source address.
\<close>

theorem sdp_Start_source_filter:
  assumes env: "plain_env e"
    and name: "line_safe (IsUTF8 e) (or_default ''Unnamed'' name)"
    and description: "line_safe (IsUTF8 e) (or_default ''N/A'' description)"
    and url: "line_safe (IsUTF8 e) (or_default [] url)"
    and email: "line_safe (IsUTF8 e) (or_default [] email)"
    and phone: "line_safe (IsUTF8 e) (or_default [] phone)"
    and addr: "AddressToSDP e addr addrlen = Some connection"
    and alloc: "\<forall>n. realloc e n"
    and src: "0 < srclen"
  shows "\<exists>doc. sdp_Start e name description url email phone src srclen addr addrlen = Inr doc
       \<and> (case AddressToSDP e src srclen of
             None \<Rightarrow>
               sdp_Start e name description url email phone src 0 addr addrlen = Inr doc
               \<and> count_lines ''a=source-filter'' doc = 0
           | Some machine \<Rightarrow>
               count_lines ''a=source-filter'' doc = 1
               \<and> suffix (CRLF @ ''a=source-filter: incl IN IP'' @ [machine ! 5] @ '' * ''
                          @ drop 7 machine @ CRLF) doc)"
proof -
  from env have pkg: "CHR ''%'' \<notin> set (PACKAGE_STRING e)"
    by (simp add: plain_env_def)
  note valid = name [THEN line_safe_IsSDPString] description [THEN line_safe_IsSDPString]
    url [THEN line_safe_IsSDPString] email [THEN line_safe_IsSDPString]
    phone [THEN line_safe_IsSDPString]
  from sdp_Start_succeeds [OF pkg valid addr alloc] obtain doc where
    ok: "sdp_Start e name description url email phone src srclen addr addrlen = Inr doc"
    by blast
  from sdp_Start_Inr [OF env ok] src obtain c ls where
    ls: "ls = session_lines e (or_default ''Unnamed'' name) (or_default ''N/A'' description)
               url email phone c (AddressToSDP e src srclen)"
    and doc: "doc = crlf_lines ls" and nocr: "\<forall>l\<in>set ls. CR \<notin> set l"
    by auto
  have cnt: "count_lines ''a=source-filter'' doc
               = (if AddressToSDP e src srclen = None then 0 else 1)"
    unfolding doc using nocr by (simp add: count_lines_crlf_lines ls session_lines_counts)
  show ?thesis
  proof (cases "AddressToSDP e src srclen")
    case None
    with ok src have "sdp_Start e name description url email phone src 0 addr addrlen = Inr doc"
      by (simp add: sdp_Start_eq [OF pkg] split: option.splits if_splits)
    with ok cnt None show ?thesis by simp
  next
    case (Some machine)
    have "suffix (CRLF @ ''a=source-filter: incl IN IP'' @ [machine ! 5] @ '' * ''
                          @ drop 7 machine @ CRLF) doc"
      unfolding doc ls Some by (simp add: session_lines_def crlf_lines_def suffix_def)
    with ok cnt Some show ?thesis by simp
  qed
qed

theorem sdp_Start_source_filter_witness:
  "sdp_Start env0 (Some ''Test Stream'') (Some ''demo'') None None None addrX 16 addr4 16
     = Inr doc0
   \<and> sdp_Start env0 (Some ''Test Stream'') (Some ''demo'') None None None addrX 0 addr4 16
     = Inr doc0
   \<and> count_lines ''a=source-filter'' doc0 = 0
   \<and> sdp_Start env0 (Some ''Test Stream'') (Some ''demo'') None None None addr6 28 addr4 16
     = Inr doc6
   \<and> count_lines ''a=source-filter'' doc6 = 1
   \<and> suffix (CRLF @ ''a=source-filter: incl IN IP6 * ff02::1'' @ CRLF) doc6"
proof -
  have safe: "line_safe (IsUTF8 env0) (or_default ''Unnamed'' (Some ''Test Stream''))"
    "line_safe (IsUTF8 env0) (or_default ''N/A'' (Some ''demo''))"
    "line_safe (IsUTF8 env0) (or_default [] None)"
    "line_safe (IsUTF8 env0) (or_default [] None)"
    "line_safe (IsUTF8 env0) (or_default [] None)"
    by (simp_all add: line_safe_def or_default_def env0_fields ascii_def)
  have alloc: "\<forall>n. realloc env0 n" by (simp add: env0_fields)
  have len: "(0::nat) < 16" "(0::nat) < 28" by simp_all
  have m: "''IN IP6 ff02::1'' ! 5 = CHR ''6''" "drop 7 ''IN IP6 ff02::1'' = ''ff02::1''"
    by simp_all
  from sdp_Start_source_filter [OF env0_plain safe AddressToSDP_addr4 alloc len(1), of addrX]
  have a: "sdp_Start env0 (Some ''Test Stream'') (Some ''demo'') None None None addrX 0 addr4 16
     = Inr doc0 \<and> count_lines ''a=source-filter'' doc0 = 0"
    by (simp add: AddressToSDP_addrX start_example_bad_source)
  from sdp_Start_source_filter [OF env0_plain safe AddressToSDP_addr4 alloc len(2), of addr6]
  have b: "count_lines ''a=source-filter'' doc6 = 1
   \<and> suffix (CRLF @ ''a=source-filter: incl IN IP6 * ff02::1'' @ CRLF) doc6"
    by (simp add: AddressToSDP_addr6 start_example_source m)
  from a b show ?thesis
    by (simp add: start_example_bad_source start_example_source)
qed

text \<open>
  The claim as written, without the condition on the environment, fails: with a source
  address that cannot be formatted and a host name that holds a CRLF and the text of a
  source-filter attribute, the document produced has a line starting with
  a=source-filter.
\<close>

theorem sdp_Start_source_filter_counterexample:
  "AddressToSDP env_host_a addrX 16 = None
   \<and> sdp_Start env_host_a (Some ''Test Stream'') (Some ''demo'') None None None
        addrX 16 addr4 16 = Inr doc_host_a
   \<and> count_lines ''a=source-filter'' doc_host_a = 1"
proof -
  have pkg: "CHR ''%'' \<notin> set (PACKAGE_STRING env_host_a)"
    by (simp add: env_host_a_fields)
  have "sdp_Start env_host_a (Some ''Test Stream'') (Some ''demo'') None None None
        addrX 16 addr4 16 = Inr doc_host_a"
    unfolding sdp_Start_eq [OF pkg]
    by (simp add: AddressToSDP_addr4 AddressToSDP_addrX IsSDPString_iff or_default_def
        env_host_a_fields ascii_def session_lines_def optional_line_def crlf_lines_def
        dec_example doc_host_a_def)
  moreover have "count_lines ''a=source-filter'' doc_host_a = 1"
    unfolding doc_host_a_lines by (subst count_lines_crlf_lines) simp_all
  ultimately show ?thesis
    by (simp add: env_host_a_fields AddressToSDP_addrX)
qed

section \<open>Attribute append\<close>

text \<open>
  Claim C1. An attribute append with a format should add one line a=name:value CRLF,
  the value being the format applied to the caller's arguments, and the bare line
  a=name CRLF without a format. The code at three inputs: with the format "broadcast"
  the line is left without its CRLF; with the format "%s" and one string argument the
  value is formatted from the argument list object itself, which has no defined
  result; without a format the bare line is complete.
\<close>

theorem sdp_AddAttribute_formatted_line:
  "sdp_AddAttribute env0 doc0 ''type'' (Some ''broadcast'') [] = Inr (doc0 @ ''a=type:broadcast'')
   \<and> sdp_AddAttribute env0 doc0 ''x-plgroup'' (Some ''%s'') [A_str ''news'']
       = Inl (Undefined, doc0 @ ''a=x-plgroup:'')
   \<and> sdp_AddAttribute env0 doc0 ''recvonly'' None [] = Inr (doc0 @ ''a=recvonly'' @ CRLF)"
  by (simp add: sdp_AddAttribute_def vsdp_AddAttribute_def env0_fields)

section \<open>Media append\<close>

text \<open>
  Claim C9, amended. In a build without \<open>NDEBUG\<close>, every media append with a payload
  type of 128 or more (200, for example) stops at the assertion, before the first
  reallocation: the caller's document is exactly as it was.
\<close>

theorem sdp_AddMedia_payload_type_asserted:
  assumes "\<not> NDEBUG e" and "128 \<le> pt"
  shows "sdp_AddMedia e sdp type protocol dport pt bw_indep bw rtpmap fmtp
           = Inl (AssertFailed, sdp)"
  using assms by (simp add: sdp_AddMedia_def Let_def not_less)

theorem sdp_AddMedia_payload_type_asserted_witness:
  "sdp_AddMedia env0 ''v=0'' None None 5004 200 False 0 (Some ''H264/90000'') None
     = Inl (AssertFailed, ''v=0'')"
  using sdp_AddMedia_payload_type_asserted
    [of env0 200 "''v=0''" None None 5004 False 0 "Some ''H264/90000''" None]
  by (simp add: env0_fields)

text \<open>
  The claim as written, for every call, fails: the assertion is the only check of the
  payload type, and in a build with \<open>NDEBUG\<close> a media append with payload type 200
  succeeds and adds the m= and b= lines to the document.
\<close>

theorem sdp_AddMedia_payload_type_unchecked:
  "NDEBUG env_ndebug
   \<and> sdp_AddMedia env_ndebug doc0 None None 5004 200 False 0 None None
       = Inr (doc0 @ ''m=video 5004 RTP/AVP 200'' @ CRLF @ ''b=RR:0'' @ CRLF)"
  by (simp add: sdp_AddMedia_def env_ndebug_def env0_def media_format_def
      dec.simps digit_def sdec_def)

text \<open>
  Claim C10. Two media appends on equal documents that differ only in the
  bandwidth-independence flag and in the bandwidth value end in the same way, with the
  same document: neither parameter reaches the output.
\<close>

theorem sdp_AddMedia_bandwidth_inert:
  "sdp_AddMedia e sdp type protocol dport pt bw_indep bw rtpmap fmtp
     = sdp_AddMedia e sdp type protocol dport pt bw_indep' bw' rtpmap fmtp"
  by (simp add: sdp_AddMedia_def)

text \<open>
  Claim C2. The media append of the scenario (no type, no protocol, port 5004, payload
  type 96, rtpmap "H264/90000", no fmtp) should add the m= line, the b= line and the
  line a=rtpmap:96 H264/90000 CRLF. The code writes the first two lines and
  "a=rtpmap:", then formats "%u %s" from the argument list object: the call has no
  defined result, and the rtpmap line gets no CRLF.
\<close>

theorem sdp_AddMedia_scenario:
  "sdp_AddMedia env0 doc0 None None 5004 96 False 0 (Some ''H264/90000'') None
     = Inl (Undefined, doc0 @ ''m=video 5004 RTP/AVP 96'' @ CRLF @ ''b=RR:0'' @ CRLF
                         @ ''a=rtpmap:'')"
  by (simp add: sdp_AddMedia_def sdp_AddAttribute_def vsdp_AddAttribute_def env0_fields
      media_format_def discard_result_def dec.simps digit_def sdec_def)

section \<open>Sequences of builder operations\<close>

text \<open>
  Claim C3. After every successful builder operation each line of the document should
  end with CRLF. The code at one sequence: the document of session initialization is
  terminated, and after a successful attribute append with a format the last line of
  the document is not.
\<close>

theorem builder_sequence_unterminated:
  "sdp_Start env0 (Some ''Test Stream'') (Some ''demo'') None None None addr4 0 addr4 16
     = Inr doc0
   \<and> lines_terminated doc0
   \<and> sdp_AddAttribute env0 doc0 ''control'' (Some ''rtsp://box/stream'') []
       = Inr (doc0 @ ''a=control:rtsp://box/stream'')
   \<and> \<not> lines_terminated (doc0 @ ''a=control:rtsp://box/stream'')"
proof -
  have "lines_terminated doc0"
    unfolding doc0_lines by (rule lines_terminated_crlf_lines) simp
  moreover have "\<not> lines_terminated (doc0 @ ''a=control:rtsp://box/stream'')"
    unfolding doc0_lines lines_terminated_def
    by (subst split_crlf_lines_append) simp_all
  moreover have "sdp_AddAttribute env0 doc0 ''control'' (Some ''rtsp://box/stream'') []
       = Inr (doc0 @ ''a=control:rtsp://box/stream'')"
    by (simp add: sdp_AddAttribute_def vsdp_AddAttribute_def env0_fields)
  ultimately show ?thesis using start_example by simp
qed

theorem builder_sequence_unterminated_witness:
  "\<exists>doc doc'. sdp_Start env0 (Some ''Test Stream'') (Some ''demo'') None None None
                  addr4 0 addr4 16 = Inr doc
     \<and> sdp_AddAttribute env0 doc ''control'' (Some ''rtsp://box/stream'') [] = Inr doc'
     \<and> \<not> lines_terminated doc'"
  using builder_sequence_unterminated by blast

end
